theory Spec2Isabelle
  imports Complex_Main
begin

section \<open>Values, errors and the runtime environment\<close>

text \<open>
  The exceptions that \<^verbatim>\<open>vincent/data.py\<close> raises itself (\<open>LoadError\<close>,
  \<open>ValueError\<close>, \<open>ValidationError\<close>), the \<open>KeyError\<close> of \<^verbatim>\<open>dict.pop\<close> and of a
  missing label, and the errors of the builtins it calls.
\<close>

datatype error =
    LoadError string
  | ValueError string
  | ValidationError string
  | KeyError string
  | TypeError string
  | OverflowError string

text \<open>
  A Python value, as far as \<^verbatim>\<open>Data.serialize\<close> can tell values apart. Floats are
  kept abstract (type \<open>'f\<close>), and so is the result of \<^verbatim>\<open>timetuple()\<close> (type \<open>'t\<close>).
  \<open>PyStr\<close>, \<open>PyInt\<close> and \<open>PyFloat\<close> are the exact builtin types \<^verbatim>\<open>str\<close>, \<^verbatim>\<open>int\<close>
  (unbounded) and \<^verbatim>\<open>float\<close>. \<open>PyObj\<close> is any other object, given by what the code asks of
  it: the name of its type, whether it is an instance of \<^verbatim>\<open>str\<close>, and for each of the
  attributes \<^verbatim>\<open>timetuple\<close>, \<^verbatim>\<open>item\<close>, \<^verbatim>\<open>__float__\<close>, \<^verbatim>\<open>__int__\<close> either \<open>None\<close>
  (the object has no such attribute) or the result of calling it.
\<close>

datatype ('f, 't) pyval =
    PyStr string
  | PyInt int
  | PyFloat 'f
  | PyObj (obj_type: string) (obj_is_str: bool)
        (obj_timetuple: "'t option") (obj_item: "('f, 't) pyval option")
        (obj_float: "'f option") (obj_int: "int option")

text \<open>
  What the module finds around it: whether \<^verbatim>\<open>import pandas\<close> and \<^verbatim>\<open>import numpy\<close>
  succeeded (the globals \<^verbatim>\<open>pd\<close> and \<^verbatim>\<open>np\<close>), and the builtins it applies to
  values: \<^verbatim>\<open>time.mktime\<close>, \<^verbatim>\<open>float\<close> of an integer (which overflows on a large one),
  \<^verbatim>\<open>int\<close> of a float (truncation; fails on nan and inf) and \<^verbatim>\<open>str\<close>.
\<close>

record ('f, 't) env =
  pd_imported :: bool
  np_imported :: bool
  mktime :: "'t \<Rightarrow> error + 'f"
  float_of_int :: "int \<Rightarrow> error + 'f"
  int_of_float :: "'f \<Rightarrow> error + int"
  str_of :: "('f, 't) pyval \<Rightarrow> string"

text \<open>Sequencing of computations that may raise: the first error is the result.\<close>

definition and_then :: "error + 'a \<Rightarrow> ('a \<Rightarrow> error + 'b) \<Rightarrow> error + 'b" where
  "and_then r f = (case r of Inl e \<Rightarrow> Inl e | Inr x \<Rightarrow> f x)"

fun map_err :: "('a \<Rightarrow> error + 'b) \<Rightarrow> 'a list \<Rightarrow> error + 'b list" where
  "map_err f [] = Inr []"
| "map_err f (x # xs) =
     (case f x of
        Inl e \<Rightarrow> Inl e
      | Inr y \<Rightarrow> (case map_err f xs of Inl e \<Rightarrow> Inl e | Inr ys \<Rightarrow> Inr (y # ys)))"

text \<open>\<^verbatim>\<open>isinstance(obj, str)\<close>, \<^verbatim>\<open>hasattr(obj, ...)\<close> and \<^verbatim>\<open>type(obj).__name__\<close>.\<close>

fun isinstance_str :: "('f, 't) pyval \<Rightarrow> bool" where
  "isinstance_str (PyStr s) = True"
| "isinstance_str (PyInt n) = False"
| "isinstance_str (PyFloat x) = False"
| "isinstance_str (PyObj ty is_s tt it fl i) = is_s"

fun attr_timetuple :: "('f, 't) pyval \<Rightarrow> 't option" where
  "attr_timetuple (PyObj ty is_s tt it fl i) = tt"
| "attr_timetuple v = None"

fun attr_item :: "('f, 't) pyval \<Rightarrow> ('f, 't) pyval option" where
  "attr_item (PyObj ty is_s tt it fl i) = it"
| "attr_item v = None"

text \<open>
  \<^verbatim>\<open>hasattr(obj, '__float__')\<close> and \<^verbatim>\<open>hasattr(obj, '__int__')\<close>: integers and floats
  have both.
\<close>

fun has_float :: "('f, 't) pyval \<Rightarrow> bool" where
  "has_float (PyStr s) = False"
| "has_float (PyInt n) = True"
| "has_float (PyFloat x) = True"
| "has_float (PyObj ty is_s tt it fl i) = (fl \<noteq> None)"

fun has_int :: "('f, 't) pyval \<Rightarrow> bool" where
  "has_int (PyStr s) = False"
| "has_int (PyInt n) = True"
| "has_int (PyFloat x) = True"
| "has_int (PyObj ty is_s tt it fl i) = (i \<noteq> None)"

text \<open>
  The name of the type is read only when no rule of \<open>serialize\<close> applies, which is
  never the case for an integer or a float.
\<close>

fun type_name :: "('f, 't) pyval \<Rightarrow> string" where
  "type_name (PyStr s) = ''str''"
| "type_name (PyInt n) = ''int''"
| "type_name (PyFloat x) = ''float''"
| "type_name (PyObj ty is_s tt it fl i) = ty"

text \<open>
  \<^verbatim>\<open>float(obj)\<close> and \<^verbatim>\<open>int(obj)\<close> on an object that has the conversion. \<^verbatim>\<open>float\<close> of a
  float is that float.
\<close>

fun py_float :: "('f, 't) env \<Rightarrow> ('f, 't) pyval \<Rightarrow> error + 'f" where
  "py_float rt (PyInt n) = float_of_int rt n"
| "py_float rt (PyFloat x) = Inr x"
| "py_float rt (PyObj ty is_s tt it (Some x) i) = Inr x"
| "py_float rt v = Inl (TypeError ''float() argument must be a string or a number'')"

fun py_int :: "('f, 't) env \<Rightarrow> ('f, 't) pyval \<Rightarrow> error + int" where
  "py_int rt (PyInt n) = Inr n"
| "py_int rt (PyFloat x) = int_of_float rt x"
| "py_int rt (PyObj ty is_s tt it fl (Some n)) = Inr n"
| "py_int rt v = Inl (TypeError ''int() argument must be a string or a number'')"

section \<open>The scalar serializer\<close>

text \<open>\<^verbatim>\<open>Data.serialize\<close> (data.py, lines 122-141).\<close>

definition serialize :: "('f, 't) env \<Rightarrow> ('f, 't) pyval \<Rightarrow> error + ('f, 't) pyval" where
  "serialize rt obj =
     (if isinstance_str obj then Inr obj
      else case attr_timetuple obj of
        Some tt \<Rightarrow>
          and_then (mktime rt tt)
            (\<lambda>secs. and_then (int_of_float rt secs) (\<lambda>n. Inr (PyInt (n * 1000))))
      | None \<Rightarrow>
          (case attr_item obj of
             Some unwrapped \<Rightarrow> Inr unwrapped
           | None \<Rightarrow>
               if has_float obj then and_then (py_float rt obj) (\<lambda>x. Inr (PyFloat x))
               else if has_int obj then and_then (py_int rt obj) (\<lambda>n. Inr (PyInt n))
               else Inl (LoadError (''cannot serialize index of type '' @ type_name obj))))"

section \<open>The container\<close>

text \<open>
  A row of \<^verbatim>\<open>values\<close> is a dict from strings to values. The container holds the six
  attributes that the class declares; an attribute that was never set reads as \<open>None\<close>.
\<close>

type_synonym ('f, 't) pydict = "string \<Rightarrow> ('f, 't) pyval option"

record ('f, 't) Data =
  name :: "string option"
  url :: "string option"
  "values" :: "('f, 't) pydict list option"
  source :: "string option"
  transform :: "('f, 't) pyval list option"
  format :: "('f, 't) pydict option"

text \<open>Truth values of an optional string and of an optional list: \<^verbatim>\<open>None\<close> and the
  empty one are false.\<close>

fun truthy :: "'a list option \<Rightarrow> bool" where
  "truthy None = False"
| "truthy (Some xs) = (xs \<noteq> [])"

text \<open>A call of the constructor without keyword attributes starts from this record.\<close>

definition no_kwargs :: "('f, 't) Data" where
  "no_kwargs =
     \<lparr>name = None, url = None, values = None, source = None, transform = None,
      format = None\<rparr>"

text \<open>
  Modelled from the spec: the inherited constructor (\<^verbatim>\<open>GrammarClass.__init__\<close> of
  module \<^verbatim>\<open>core\<close>, which is not part of the sources) is the typed-attribute mechanism
  that stores each keyword attribute after checking its declared type. The attributes
  are typed fields here, so the check cannot fail and \<open>kwargs\<close> is the record of the
  attributes to store.
\<close>

definition super_init :: "('f, 't) Data \<Rightarrow> ('f, 't) Data" where
  "super_init kwargs = kwargs"

text \<open>\<^verbatim>\<open>Data.__init__\<close> (lines 32-44).\<close>

definition Data_init :: "string option \<Rightarrow> ('f, 't) Data \<Rightarrow> ('f, 't) Data" where
  "Data_init nm kwargs =
     (super_init kwargs)\<lparr>name := Some (if truthy nm then the nm else ''table'')\<rparr>"

text \<open>
  \<^verbatim>\<open>Data.validate\<close> (lines 115-120). The inherited \<^verbatim>\<open>validate\<close> of module \<^verbatim>\<open>core\<close>
  is the parameter \<open>super_validate\<close>.
\<close>

definition validate ::
  "(('f, 't) Data \<Rightarrow> error + unit) \<Rightarrow> ('f, 't) Data \<Rightarrow> error + unit" where
  "validate super_validate self =
     and_then (super_validate self)
       (\<lambda>_. if \<not> truthy (name self) then Inl (ValidationError ''name is required for Data'')
            else Inr ())"

section \<open>Loading from a numpy array\<close>

text \<open>
  A two-dimensional \<^verbatim>\<open>numpy.ndarray\<close>: \<^verbatim>\<open>shape[1]\<close> and the rows that \<^verbatim>\<open>tolist()\<close>
  returns; \<^verbatim>\<open>shape[0]\<close> is the number of rows. In a well-formed array every row has
  \<^verbatim>\<open>shape[1]\<close> cells.
\<close>

datatype ('f, 't) ndarray = NDArray (shape1: nat) (tolist: "('f, 't) pyval list list")

definition shape0 :: "('f, 't) ndarray \<Rightarrow> nat" where
  "shape0 a = length (tolist a)"

definition ndarray_wf :: "('f, 't) ndarray \<Rightarrow> bool" where
  "ndarray_wf a = list_all (\<lambda>row. length row = shape1 a) (tolist a)"

text \<open>\<^verbatim>\<open>range(n)\<close> and \<^verbatim>\<open>dict(pairs)\<close>: in a dict a later pair replaces an earlier one
  with the same key.\<close>

definition py_range :: "nat \<Rightarrow> ('f, 't) pyval list" where
  "py_range n = map (\<lambda>i. PyInt (int i)) [0..<n]"

definition dict_of :: "(string \<times> ('f, 't) pyval) list \<Rightarrow> ('f, 't) pydict" where
  "dict_of ps = map_of (rev ps)"

text \<open>
  \<^verbatim>\<open>Data.from_numpy\<close> (lines 219-274). The argument is a two-dimensional array, so the
  type assertion of line 251 holds.
\<close>

definition from_numpy ::
  "('f, 't) env \<Rightarrow> ('f, 't) ndarray \<Rightarrow> string option \<Rightarrow> ('f, 't) pyval list \<Rightarrow>
   ('f, 't) pyval list option \<Rightarrow> string option \<Rightarrow> ('f, 't) Data \<Rightarrow> error + ('f, 't) Data" where
  "from_numpy rt np_obj nm columns index index_key kwargs =
     (if \<not> np_imported rt then Inl (LoadError ''numpy could not be imported'')
      else
        let index' = (if truthy index then the index else py_range (shape0 np_obj));
            columns' = map (str_of rt) columns;
            index_key' = (if truthy index_key then the index_key else ''idx'')
        in
          if length index' \<noteq> shape0 np_obj then
            Inl (LoadError ''length of index must be equal to number of rows of array'')
          else if length columns' \<noteq> shape1 np_obj then
            Inl (LoadError
              ''length of columns must be equal to number of columns of array'')
          else
            and_then
              (map_err
                 (\<lambda>(idx, row).
                    and_then (serialize rt idx)
                      (\<lambda>s. Inr (dict_of ((index_key', s) # zip columns' row))))
                 (zip index' (tolist np_obj)))
              (\<lambda>vs. Inr ((Data_init nm kwargs)\<lparr>values := Some vs\<rparr>)))"

section \<open>Loading from several named sequences\<close>

text \<open>
  \<^verbatim>\<open>kwargs.pop(idx)\<close> on a dict given as the list of its items (keys distinct): the
  value stored under the key and the remaining items, or \<open>KeyError\<close>.
\<close>

definition dict_pop ::
  "(string \<times> 'v) list \<Rightarrow> string \<Rightarrow> error + ('v \<times> (string \<times> 'v) list)" where
  "dict_pop kw k =
     (case map_of kw k of
        None \<Rightarrow> Inl (KeyError k)
      | Some v \<Rightarrow> Inr (v, filter (\<lambda>(k', _). k' \<noteq> k) kw))"

text \<open>
  \<^verbatim>\<open>Data.from_mult_iters\<close> (lines 276-322). \<open>kwargs\<close> is the dict of the named sequences
  as the list of its items, in the order in which the dict iterates.
\<close>

definition from_mult_iters ::
  "string option \<Rightarrow> string option \<Rightarrow> (string \<times> ('f, 't) pyval list) list \<Rightarrow>
   error + ('f, 't) Data" where
  "from_mult_iters nm idx kwargs =
     (let nm' = (if \<not> truthy nm then Some ''table'' else nm);
          lengths = map (\<lambda>(k, v). length v) kwargs
      in
        if length (remdups lengths) \<noteq> 1 then
          Inl (ValueError ''Iterables must all be same length'')
        else if \<not> truthy idx then
          Inl (ValueError ''Must provide iter name index reference'')
        else
          and_then (dict_pop kwargs (the idx))
            (\<lambda>(index, rest).
               let vega_vals =
                 concat (map (\<lambda>(k, v).
                   map (\<lambda>(i, val).
                          [''idx'' \<mapsto> i, ''col'' \<mapsto> PyStr k, ''val'' \<mapsto> val])
                       (zip index v)) rest)
               in Inr (Data_init nm' (no_kwargs\<lparr>values := Some vega_vals\<rparr>))))"

section \<open>Loading from a pandas object\<close>

text \<open>
  The objects that \<^verbatim>\<open>from_pandas\<close> can be given. A \<open>Series\<close> has its \<^verbatim>\<open>name\<close> and the
  (label, value) pairs that \<^verbatim>\<open>iterkv()\<close> yields. A \<open>DataFrame\<close> has its column labels
  and the (label, cells) pairs that \<^verbatim>\<open>iterrows()\<close> yields; iterating over a row yields
  the column labels paired with the cells. Of any other object only the name of its
  type and whether it has an attribute \<^verbatim>\<open>index\<close> are known.
\<close>

datatype ('f, 't) pandas =
    Series (series_name: "string option") (iterkv: "(('f, 't) pyval \<times> ('f, 't) pyval) list")
  | DataFrame (df_columns: "('f, 't) pyval list")
      (iterrows: "(('f, 't) pyval \<times> ('f, 't) pyval list) list")
  | Other (other_type: string) (other_has_index: bool)


text \<open>
  The objects live in a store, a list addressed by position, and a variable holds an
  address. A new object is put at the end.
\<close>

type_synonym ('f, 't) store = "('f, 't) pandas list"

fun hasattr_index :: "('f, 't) pandas \<Rightarrow> bool" where
  "hasattr_index (Series nm items) = True"
| "hasattr_index (DataFrame cols rows) = True"
| "hasattr_index (Other ty b) = b"

text \<open>\<^verbatim>\<open>data.name\<close>; the function reads it only when the object is a series.\<close>

fun attr_name :: "('f, 't) pandas \<Rightarrow> string option" where
  "attr_name (Series nm items) = nm"
| "attr_name (DataFrame cols rows) = None"
| "attr_name (Other ty b) = None"

text \<open>
  The operations of pandas that the function uses; each returns a new object and leaves
  its argument as it was. \<open>getitem_list\<close> is \<^verbatim>\<open>data[columns]\<close> for a list of labels:
  the listed columns of a frame, the listed entries of a series, \<open>KeyError\<close> for a label
  that is not there. Labels are taken to be distinct: of a repeated label the first
  entry is the one selected.
\<close>

fun getitem_list ::
  "('f, 't) env \<Rightarrow> ('f, 't) pandas \<Rightarrow> ('f, 't) pyval list \<Rightarrow> error + ('f, 't) pandas" where
  "getitem_list rt (DataFrame cols rows) wanted =
     (case filter (\<lambda>c. c \<notin> set cols) wanted of
        c # cs \<Rightarrow> Inl (KeyError (str_of rt c))
      | [] \<Rightarrow>
          and_then
            (map_err (\<lambda>(i, cells).
               and_then
                 (map_err (\<lambda>c. case map_of (zip cols cells) c of
                                  None \<Rightarrow> Inl (KeyError (str_of rt c))
                                | Some v \<Rightarrow> Inr v) wanted)
                 (\<lambda>cells'. Inr (i, cells'))) rows)
            (\<lambda>rows'. Inr (DataFrame wanted rows')))"
| "getitem_list rt (Series nm items) wanted =
     and_then
       (map_err (\<lambda>c. case map_of items c of
                        None \<Rightarrow> Inl (KeyError (str_of rt c))
                      | Some v \<Rightarrow> Inr (c, v)) wanted)
       (\<lambda>items'. Inr (Series nm items'))"
| "getitem_list rt (Other ty b) wanted =
     Inl (TypeError (ty @ '' object is not subscriptable''))"

text \<open>
  \<open>getitem_key\<close> is \<^verbatim>\<open>data[key_on]\<close> for one label: the cells of that column of a
  frame, the value under that label of a series. Column labels are taken to be
  distinct: of a repeated label the first column is the one selected.
\<close>

datatype ('f, 't) selection = Column "('f, 't) pyval list" | Scalar "('f, 't) pyval"

fun getitem_key ::
  "('f, 't) pandas \<Rightarrow> string \<Rightarrow> error + ('f, 't) selection" where
  "getitem_key (DataFrame cols rows) k =
     (if PyStr k \<in> set cols then
        and_then
          (map_err (\<lambda>(i, cells). case map_of (zip cols cells) (PyStr k) of
                                    None \<Rightarrow> Inl (KeyError k)
                                  | Some v \<Rightarrow> Inr v) rows)
          (\<lambda>vs. Inr (Column vs))
      else Inl (KeyError k))"
| "getitem_key (Series nm items) k =
     (case map_of items (PyStr k) of None \<Rightarrow> Inl (KeyError k) | Some v \<Rightarrow> Inr (Scalar v))"
| "getitem_key (Other ty b) k = Inl (TypeError (ty @ '' object is not subscriptable''))"

text \<open>
  \<open>set_index\<close> is the assignment \<^verbatim>\<open>pd_obj.index = new\<close>: the labels are replaced by
  the given ones, which must be as many as there are entries.
\<close>

fun set_index ::
  "('f, 't) pandas \<Rightarrow> ('f, 't) selection \<Rightarrow> error + ('f, 't) pandas" where
  "set_index p (Scalar v) =
     Inl (TypeError ''Index(...) must be called with a collection of some kind'')"
| "set_index (DataFrame cols rows) (Column labels) =
     (if length labels = length rows then Inr (DataFrame cols (zip labels (map snd rows)))
      else Inl (ValueError ''Length mismatch''))"
| "set_index (Series nm items) (Column labels) =
     (if length labels = length items then Inr (Series nm (zip labels (map snd items)))
      else Inl (ValueError ''Length mismatch''))"
| "set_index (Other ty b) (Column labels) = Inr (Other ty True)"

text \<open>The loop over a series (lines 194-200) and the loop over a frame (lines 205-213).\<close>

definition series_loop ::
  "('f, 't) env \<Rightarrow> string \<Rightarrow> (('f, 't) pyval \<times> ('f, 't) pyval) list \<Rightarrow>
   error + ('f, 't) pydict list" where
  "series_loop rt data_key items =
     map_err (\<lambda>(i, v).
       and_then (serialize rt i) (\<lambda>si.
       and_then (serialize rt v) (\<lambda>sv.
         Inr [''idx'' \<mapsto> si, ''col'' \<mapsto> PyStr data_key, ''val'' \<mapsto> sv]))) items"

definition frame_cell ::
  "('f, 't) env \<Rightarrow> bool \<Rightarrow> ('f, 't) pyval \<Rightarrow> nat \<times> ('f, 't) pyval \<times> ('f, 't) pyval \<Rightarrow>
   error + ('f, 't) pydict" where
  "frame_cell rt grouped i = (\<lambda>(num, (k, v)).
     and_then (serialize rt i) (\<lambda>si.
     and_then (serialize rt k) (\<lambda>sk.
     and_then (serialize rt v) (\<lambda>sv.
       let val = [''idx'' \<mapsto> si, ''col'' \<mapsto> sk, ''val'' \<mapsto> sv]
       in Inr (if grouped then val(''group'' \<mapsto> PyInt (int num)) else val)))))"

definition frame_loop ::
  "('f, 't) env \<Rightarrow> bool \<Rightarrow> ('f, 't) pyval list \<Rightarrow>
   (('f, 't) pyval \<times> ('f, 't) pyval list) list \<Rightarrow> error + ('f, 't) pydict list" where
  "frame_loop rt grouped cols rows =
     and_then
       (map_err (\<lambda>(i, cells).
          map_err (frame_cell rt grouped i) (enumerate 0 (zip cols cells))) rows)
       (\<lambda>blocks. Inr (concat blocks))"

text \<open>
  \<^verbatim>\<open>Data.from_pandas\<close> (lines 143-217). \<open>data\<close> is the address of the caller's object
  in the store \<open>h\<close>; the result is the store at the end and the container or the error.
\<close>

definition from_pandas ::
  "('f, 't) env \<Rightarrow> ('f, 't) store \<Rightarrow> nat \<Rightarrow> ('f, 't) pyval list option \<Rightarrow> string \<Rightarrow>
   string option \<Rightarrow> string \<Rightarrow> bool \<Rightarrow> ('f, 't) Data \<Rightarrow>
   ('f, 't) store \<times> (error + ('f, 't) Data)" where
  "from_pandas rt h data columns key_on nm series_key grouped kwargs =
     (if \<not> pd_imported rt then (h, Inl (LoadError ''pandas could not be imported''))
      else if \<not> hasattr_index (h ! data) then
        (h, Inl (ValueError ''Please load a Pandas object.''))
      else
        let vega_data = (if truthy nm then Data_init nm kwargs
                         else Data_init (Some ''table'') kwargs);
            h1 = h @ [h ! data];
            copied = length h
        in
          case (if truthy columns then
                  (case getitem_list rt (h1 ! data) (the columns) of
                     Inl e \<Rightarrow> Inl e
                   | Inr sel \<Rightarrow> Inr (h1 @ [sel], length h1))
                else Inr (h1, copied)) of
            Inl e \<Rightarrow> (h1, Inl e)
          | Inr (h2, pd_obj) \<Rightarrow>
              (case (if key_on \<noteq> ''idx'' then
                       and_then (getitem_key (h2 ! data) key_on) (\<lambda>new.
                       and_then (set_index (h2 ! pd_obj) new) (\<lambda>p.
                         Inr (h2[pd_obj := p])))
                     else Inr h2) of
                 Inl e \<Rightarrow> (h2, Inl e)
               | Inr h3 \<Rightarrow>
                   (h3,
                    case h3 ! pd_obj of
                      Series nm' items \<Rightarrow>
                        let data_key = (if truthy (attr_name (h3 ! data))
                                        then the (attr_name (h3 ! data)) else series_key)
                        in and_then (series_loop rt data_key items)
                             (\<lambda>vs. Inr (vega_data\<lparr>values := Some vs\<rparr>))
                    | DataFrame cols rows \<Rightarrow>
                        and_then (frame_loop rt grouped cols rows)
                          (\<lambda>vs. Inr (vega_data\<lparr>values := Some vs\<rparr>))
                    | Other ty b \<Rightarrow>
                        Inl (ValueError (''cannot load from data type '' @ ty)))))"

section \<open>An environment for the examples\<close>

text \<open>
  Both libraries are imported; floats are real numbers, \<^verbatim>\<open>int\<close> of a float truncates
  towards zero, and a time tuple is given by its seconds since the epoch. The
  conversion of an integer to a float is exact here, and \<^verbatim>\<open>str\<close> of a value that is
  not a string gives the name of its type; the examples use small integers and string
  column names only.
\<close>

definition example_env :: "(real, int) env" where
  "example_env =
     \<lparr>pd_imported = True, np_imported = True,
      mktime = (\<lambda>t. Inr (of_int t)),
      float_of_int = (\<lambda>n. Inr (of_int n)),
      int_of_float = (\<lambda>x. Inr (if 0 \<le> x then \<lfloor>x\<rfloor> else \<lceil>x\<rceil>)),
      str_of = (\<lambda>v. case v of PyStr s \<Rightarrow> s | _ \<Rightarrow> type_name v)\<rparr>"

section \<open>Properties of the scalar serializer\<close>

lemma serialize_PyStr: "serialize rt (PyStr s) = Inr (PyStr s)"
  by (simp add: serialize_def)

lemma serialize_PyFloat: "serialize rt (PyFloat x) = Inr (PyFloat x)"
  by (simp add: serialize_def and_then_def)

lemma serialize_PyInt:
  "serialize rt (PyInt n) = and_then (float_of_int rt n) (\<lambda>x. Inr (PyFloat x))"
  by (simp add: serialize_def)

text \<open>
  Claim C1. \<open>serialize\<close> applies its rules in a fixed order, and the first rule that
  applies decides the result: an instance of \<^verbatim>\<open>str\<close> is returned as it is; otherwise a
  value with a \<^verbatim>\<open>timetuple\<close> becomes \<^verbatim>\<open>int(time.mktime(...)) * 1000\<close>; otherwise a
  value with \<^verbatim>\<open>item\<close> becomes what \<^verbatim>\<open>item()\<close> returns; otherwise a value with
  \<^verbatim>\<open>__float__\<close> becomes its float; otherwise a value with \<^verbatim>\<open>__int__\<close> becomes its
  integer; and when none applies the result is the \<open>LoadError\<close> that names the type
  of the value.
\<close>

theorem serialize_precedence:
  "(isinstance_str v \<longrightarrow> serialize rt v = Inr v) \<and>
   (\<not> isinstance_str v \<and> attr_timetuple v = Some tt \<longrightarrow>
      serialize rt v =
        and_then (mktime rt tt)
          (\<lambda>secs. and_then (int_of_float rt secs) (\<lambda>n. Inr (PyInt (n * 1000))))) \<and>
   (\<not> isinstance_str v \<and> attr_timetuple v = None \<and> attr_item v = Some u \<longrightarrow>
      serialize rt v = Inr u) \<and>
   (\<not> isinstance_str v \<and> attr_timetuple v = None \<and> attr_item v = None \<and> has_float v \<longrightarrow>
      serialize rt v = and_then (py_float rt v) (\<lambda>x. Inr (PyFloat x))) \<and>
   (\<not> isinstance_str v \<and> attr_timetuple v = None \<and> attr_item v = None \<and> \<not> has_float v \<and>
    has_int v \<longrightarrow>
      serialize rt v = and_then (py_int rt v) (\<lambda>n. Inr (PyInt n))) \<and>
   (\<not> isinstance_str v \<and> attr_timetuple v = None \<and> attr_item v = None \<and> \<not> has_float v \<and>
    \<not> has_int v \<longrightarrow>
      serialize rt v = Inl (LoadError (''cannot serialize index of type '' @ type_name v)))"
  by (simp add: serialize_def)

theorem serialize_precedence_witness:
  "serialize example_env (PyObj ''Label'' True (Some 86400) (Some (PyInt 1)) (Some 2.5) (Some 2))
     = Inr (PyObj ''Label'' True (Some 86400) (Some (PyInt 1)) (Some 2.5) (Some 2)) \<and>
   serialize example_env (PyObj ''datetime'' False (Some 86400) (Some (PyInt 1)) (Some 2.5) (Some 2))
     = Inr (PyInt 86400000) \<and>
   serialize example_env (PyObj ''float64'' False None (Some (PyFloat 2.5)) (Some 7) (Some 2))
     = Inr (PyFloat 2.5) \<and>
   serialize example_env (PyInt 5) = Inr (PyFloat 5) \<and>
   serialize example_env (PyObj ''Index'' False None None None (Some 7)) = Inr (PyInt 7) \<and>
   serialize example_env (PyObj ''NoneType'' False None None None None)
     = Inl (LoadError ''cannot serialize index of type NoneType'')"
  using
    serialize_precedence
      [of "PyObj ''Label'' True (Some 86400) (Some (PyInt 1)) (Some 2.5) (Some 2)" example_env]
    serialize_precedence
      [of "PyObj ''datetime'' False (Some 86400) (Some (PyInt 1)) (Some 2.5) (Some 2)"
          example_env 86400]
    serialize_precedence
      [of "PyObj ''float64'' False None (Some (PyFloat 2.5)) (Some 7) (Some 2)" example_env _
          "PyFloat 2.5"]
    serialize_precedence [of "PyInt 5" example_env]
    serialize_precedence [of "PyObj ''Index'' False None None None (Some 7)" example_env]
    serialize_precedence [of "PyObj ''NoneType'' False None None None None" example_env]
  by (simp add: example_env_def and_then_def)

text \<open>
  Claim C7. On a string, an integer or a float, serializing the result of \<open>serialize\<close>
  again gives the same as serializing once: the second call returns its argument, and
  when the first call raises, so does the composition, with the same error.
\<close>

theorem serialize_idempotent:
  "x = PyStr s \<or> x = PyInt n \<or> x = PyFloat f \<Longrightarrow>
     and_then (serialize rt x) (serialize rt) = serialize rt x \<and>
     (\<forall>y. serialize rt x = Inr y \<longrightarrow> serialize rt y = Inr y)"
proof (elim disjE)
  assume "x = PyStr s"
  then show ?thesis by (simp add: serialize_PyStr and_then_def)
next
  assume "x = PyFloat f"
  then show ?thesis by (simp add: serialize_PyFloat and_then_def)
next
  assume x: "x = PyInt n"
  show ?thesis
  proof (cases "float_of_int rt n")
    case (Inl e)
    with x show ?thesis by (simp add: serialize_PyInt and_then_def)
  next
    case (Inr y)
    with x show ?thesis by (auto simp add: serialize_PyInt serialize_PyFloat and_then_def)
  qed
qed

theorem serialize_idempotent_witness:
  "and_then (serialize example_env (PyInt 5)) (serialize example_env) = Inr (PyFloat 5) \<and>
   serialize example_env (PyInt 5) = Inr (PyFloat 5) \<and>
   serialize example_env (PyFloat 5) = Inr (PyFloat 5)"
proof -
  have s: "serialize example_env (PyInt 5) = Inr (PyFloat 5)"
    by (simp add: serialize_PyInt example_env_def and_then_def)
  from serialize_idempotent [of "PyInt 5" _ 5 _ example_env] s
  show ?thesis by simp
qed

section \<open>Properties of the container\<close>

text \<open>
  Claim C9. When the name of a container is empty (\<^verbatim>\<open>None\<close> or the empty string),
  \<open>validate\<close> fails: with the error of the inherited check when that check fails, and
  with the \<open>ValidationError\<close> \<^verbatim>\<open>name is required for Data\<close> when it passes; so it
  fails with a validation error whenever the inherited check raises nothing else. The
  constructor always leaves a non-empty name: the given one, or \<^verbatim>\<open>table\<close> when none or
  an empty one is given.
\<close>

theorem name_required:
  "(\<not> truthy (name d) \<longrightarrow>
      (\<exists>e. validate super_validate d = Inl e) \<and>
      (super_validate d = Inr () \<longrightarrow>
         validate super_validate d = Inl (ValidationError ''name is required for Data'')) \<and>
      ((\<forall>e. super_validate d = Inl e \<longrightarrow> (\<exists>m. e = ValidationError m)) \<longrightarrow>
         (\<exists>m. validate super_validate d = Inl (ValidationError m)))) \<and>
   truthy (name (Data_init nm kwargs)) \<and>
   (\<not> truthy nm \<longrightarrow> name (Data_init nm kwargs) = Some ''table'') \<and>
   (truthy nm \<longrightarrow> name (Data_init nm kwargs) = nm)"
proof -
  have v: "\<not> truthy (name d) \<Longrightarrow>
      (\<exists>e. validate super_validate d = Inl e) \<and>
      (super_validate d = Inr () \<longrightarrow>
         validate super_validate d = Inl (ValidationError ''name is required for Data'')) \<and>
      ((\<forall>e. super_validate d = Inl e \<longrightarrow> (\<exists>m. e = ValidationError m)) \<longrightarrow>
         (\<exists>m. validate super_validate d = Inl (ValidationError m)))"
    by (cases "super_validate d") (simp_all add: validate_def and_then_def)
  have i: "truthy (name (Data_init nm kwargs)) \<and>
   (\<not> truthy nm \<longrightarrow> name (Data_init nm kwargs) = Some ''table'') \<and>
   (truthy nm \<longrightarrow> name (Data_init nm kwargs) = nm)"
    by (cases nm) (simp_all add: Data_init_def super_init_def)
  from v i show ?thesis by blast
qed


theorem name_required_witness:
  "validate (\<lambda>d. Inr ()) ((no_kwargs :: (real, int) Data)\<lparr>name := Some []\<rparr>)
     = Inl (ValidationError ''name is required for Data'') \<and>
   name (Data_init None (no_kwargs :: (real, int) Data)) = Some ''table'' \<and>
   name (Data_init (Some ''cars'') (no_kwargs :: (real, int) Data)) = Some ''cars''"
  using
    name_required [of "(no_kwargs :: (real, int) Data)\<lparr>name := Some []\<rparr>" "\<lambda>d. Inr ()"
                      None "no_kwargs :: (real, int) Data"]
    name_required [of "(no_kwargs :: (real, int) Data)\<lparr>name := Some []\<rparr>" "\<lambda>d. Inr ()"
                      "Some ''cars''" "no_kwargs :: (real, int) Data"]
  by simp

section \<open>Properties of the named-sequences handler\<close>

lemma one_length_iff:
  "length (remdups (map f xs)) = 1 \<longleftrightarrow> (\<exists>L. xs \<noteq> [] \<and> (\<forall>x\<in>set xs. f x = L))"
proof -
  have "length (remdups (map f xs)) = card (f ` set xs)"
    by (simp add: length_remdups_card_conv)
  also have "\<dots> = 1 \<longleftrightarrow> (\<exists>L. f ` set xs = {L})"
    by (simp add: card_1_singleton_iff)
  also have "\<dots> \<longleftrightarrow> (\<exists>L. xs \<noteq> [] \<and> (\<forall>x\<in>set xs. f x = L))"
    by (cases xs) auto
  finally show ?thesis .
qed

lemma filter_other_keys_length:
  "distinct (map fst kw) \<Longrightarrow> k \<in> fst ` set kw \<Longrightarrow>
   length (filter (\<lambda>(k', _). k' \<noteq> k) kw) = length kw - 1"
proof (induction kw)
  case Nil
  then show ?case by simp
next
  case (Cons p kw)
  show ?case
  proof (cases "fst p = k")
    case True
    with Cons.prems have "k \<notin> fst ` set kw" by auto
    then have "filter (\<lambda>(k', _). k' \<noteq> k) kw = kw"
      by (force simp: filter_id_conv)
    with True show ?thesis by (simp add: case_prod_unfold)
  next
    case False
    with Cons.prems have "k \<in> fst ` set kw" and "distinct (map fst kw)" by auto
    with Cons.IH have "length (filter (\<lambda>(k', _). k' \<noteq> k) kw) = length kw - 1" by simp
    moreover from \<open>k \<in> fst ` set kw\<close> have "kw \<noteq> []" by auto
    ultimately show ?thesis using False by (simp add: case_prod_unfold)
  qed
qed

lemma records_length:
  "\<forall>(k, v)\<in>set rest. length v = length index \<Longrightarrow>
   length (concat (map (\<lambda>(k, v). map (g k) (zip index v)) rest)) = length rest * length index"
  by (induction rest) auto

lemma dict_pop_found:
  "map_of kw k = Some v \<Longrightarrow> dict_pop kw k = Inr (v, filter (\<lambda>(k', _). k' \<noteq> k) kw)"
  by (simp add: dict_pop_def)

lemma dict_pop_missing: "k \<notin> fst ` set kw \<Longrightarrow> dict_pop kw k = Inl (KeyError k)"
proof -
  assume "k \<notin> fst ` set kw"
  then have "map_of kw k = None" by (simp add: map_of_eq_None_iff)
  then show ?thesis by (simp add: dict_pop_def)
qed

lemma common_length_iff:
  "length (remdups (map (\<lambda>(k, v). length v) kw)) = 1 \<longleftrightarrow>
   (\<exists>L. kw \<noteq> [] \<and> (\<forall>(k, v)\<in>set kw. length v = L))"
  using one_length_iff [of "\<lambda>(k, v). length v" kw] by (simp add: case_prod_unfold)

lemma from_mult_iters_lengths:
  assumes "\<not> (\<exists>L. kwargs \<noteq> [] \<and> (\<forall>(k, v)\<in>set kwargs. length v = L))"
  shows "from_mult_iters nm idx kwargs = Inl (ValueError ''Iterables must all be same length'')"
proof -
  from assms have "length (remdups (map (\<lambda>(k, v). length v) kwargs)) \<noteq> 1"
    by (simp only: common_length_iff not_False_eq_True)
  then show ?thesis by (simp add: from_mult_iters_def Let_def)
qed

lemma from_mult_iters_no_index:
  assumes "kwargs \<noteq> []" and "\<forall>(k, v)\<in>set kwargs. length v = L" and "\<not> truthy idx"
  shows "from_mult_iters nm idx kwargs =
           Inl (ValueError ''Must provide iter name index reference'')"
proof -
  from assms(1,2) have "length (remdups (map (\<lambda>(k, v). length v) kwargs)) = 1"
    unfolding common_length_iff by blast
  with assms(3) show ?thesis by (simp add: from_mult_iters_def Let_def)
qed

lemma from_mult_iters_pop:
  assumes "kwargs \<noteq> []" and "\<forall>(k, v)\<in>set kwargs. length v = L" and "truthy idx"
  shows "from_mult_iters nm idx kwargs =
     and_then (dict_pop kwargs (the idx))
       (\<lambda>(index, rest).
          Inr (Data_init (if \<not> truthy nm then Some ''table'' else nm)
            (no_kwargs\<lparr>values := Some (concat (map (\<lambda>(k, v).
                   map (\<lambda>(i, val).
                          [''idx'' \<mapsto> i, ''col'' \<mapsto> PyStr k, ''val'' \<mapsto> val])
                       (zip index v)) rest))\<rparr>)))"
proof -
  from assms(1,2) have "length (remdups (map (\<lambda>(k, v). length v) kwargs)) = 1"
    unfolding common_length_iff by blast
  with assms(3) show ?thesis by (simp add: from_mult_iters_def Let_def)
qed

lemma records_shape:
  "r \<in> set (concat (map (\<lambda>(k, v). map (\<lambda>(i, val). F k i val) (zip index v)) rest)) \<Longrightarrow>
   \<exists>k i val. r = F k i val"
  by auto

lemma record_dom:
  "dom [''idx'' \<mapsto> i, ''col'' \<mapsto> c, ''val'' \<mapsto> v] = {''idx'', ''col'', ''val''}"
  by auto

lemma from_mult_iters_success:
  assumes d: "distinct (map fst kwargs)"
    and ne: "kwargs \<noteq> []"
    and len: "\<forall>(k, v)\<in>set kwargs. length v = L"
    and idx: "truthy idx"
    and key: "the idx \<in> fst ` set kwargs"
  shows "\<exists>d recs. from_mult_iters nm idx kwargs = Inr d \<and> values d = Some recs \<and>
           length recs = (length kwargs - 1) * L \<and>
           (\<forall>r\<in>set recs. dom r = {''idx'', ''col'', ''val''})"
proof -
  from key obtain index where m: "map_of kwargs (the idx) = Some index"
    by (cases "map_of kwargs (the idx)") (auto simp: map_of_eq_None_iff)
  define rest where "rest = filter (\<lambda>(k', _). k' \<noteq> the idx) kwargs"
  define recs where "recs = concat (map (\<lambda>(k, v).
      map (\<lambda>(i, val). [''idx'' \<mapsto> i, ''col'' \<mapsto> PyStr k, ''val'' \<mapsto> val])
        (zip index v)) rest)"
  from m have "(the idx, index) \<in> set kwargs" by (rule map_of_SomeD)
  with len have li: "length index = L" by auto
  from len have "\<forall>(k, v)\<in>set rest. length v = length index"
    by (auto simp: rest_def li)
  then have "length recs = length rest * length index"
    unfolding recs_def by (rule records_length)
  moreover have "length rest = length kwargs - 1"
    unfolding rest_def using d key by (rule filter_other_keys_length)
  ultimately have n: "length recs = (length kwargs - 1) * L" by (simp add: li)
  have k: "\<forall>r\<in>set recs. dom r = {''idx'', ''col'', ''val''}"
  proof
    fix r
    assume "r \<in> set recs"
    then have "\<exists>k i val. r = [''idx'' \<mapsto> i, ''col'' \<mapsto> PyStr k, ''val'' \<mapsto> val]"
      unfolding recs_def by (rule records_shape)
    then obtain k i val where "r = [''idx'' \<mapsto> i, ''col'' \<mapsto> PyStr k, ''val'' \<mapsto> val]"
      by blast
    then show "dom r = {''idx'', ''col'', ''val''}" by (simp only: record_dom)
  qed
  have "from_mult_iters nm idx kwargs =
          Inr (Data_init (if \<not> truthy nm then Some ''table'' else nm)
                 (no_kwargs\<lparr>values := Some recs\<rparr>))"
    by (simp add: from_mult_iters_pop [OF ne len idx] dict_pop_found [OF m] and_then_def
          rest_def recs_def)
  moreover have "values (Data_init (if \<not> truthy nm then Some ''table'' else nm)
                   (no_kwargs\<lparr>values := Some recs\<rparr>)) = Some recs"
    by (simp add: Data_init_def super_init_def)
  ultimately show ?thesis using n k by blast
qed

text \<open>
  Claim C3, as amended. For named sequences with distinct names: \<open>from_mult_iters\<close>
  fails with \<^verbatim>\<open>Iterables must all be same length\<close> exactly when the sequences do not
  have one common length (also when there is no sequence at all); it fails with
  \<^verbatim>\<open>Must provide iter name index reference\<close> exactly when they have one common length
  and no index name is given; and when they have the common length \<open>L\<close>, an index name
  is given and it is the name of one of the \<open>K + 1\<close> sequences, the call returns a
  container with exactly \<open>K * L\<close> records, each with the keys \<^verbatim>\<open>idx\<close>, \<^verbatim>\<open>col\<close> and
  \<^verbatim>\<open>val\<close>.
\<close>

theorem from_mult_iters_outcomes:
  assumes d: "distinct (map fst kwargs)"
  shows
   "(from_mult_iters nm idx kwargs = Inl (ValueError ''Iterables must all be same length'')
       \<longleftrightarrow> \<not> (\<exists>L. kwargs \<noteq> [] \<and> (\<forall>(k, v)\<in>set kwargs. length v = L))) \<and>
    (from_mult_iters nm idx kwargs = Inl (ValueError ''Must provide iter name index reference'')
       \<longleftrightarrow> (\<exists>L. kwargs \<noteq> [] \<and> (\<forall>(k, v)\<in>set kwargs. length v = L)) \<and> \<not> truthy idx) \<and>
    (kwargs \<noteq> [] \<and> (\<forall>(k, v)\<in>set kwargs. length v = L) \<and> truthy idx \<and>
     the idx \<in> fst ` set kwargs \<longrightarrow>
       (\<exists>d recs. from_mult_iters nm idx kwargs = Inr d \<and> values d = Some recs \<and>
          length recs = (length kwargs - 1) * L \<and>
          (\<forall>r\<in>set recs. dom r = {''idx'', ''col'', ''val''})))"
proof (cases "\<exists>L. kwargs \<noteq> [] \<and> (\<forall>(k, v)\<in>set kwargs. length v = L)")
  case False
  then have "from_mult_iters nm idx kwargs = Inl (ValueError ''Iterables must all be same length'')"
    by (rule from_mult_iters_lengths)
  with False show ?thesis by auto
next
  case True
  then obtain M where ne: "kwargs \<noteq> []" and len: "\<forall>(k, v)\<in>set kwargs. length v = M"
    by blast
  show ?thesis
  proof (cases "truthy idx")
    case False
    with ne len have
      "from_mult_iters nm idx kwargs = Inl (ValueError ''Must provide iter name index reference'')"
      by (rule from_mult_iters_no_index)
    with False True show ?thesis by auto
  next
    case idx: True
    show ?thesis
    proof (cases "the idx \<in> fst ` set kwargs")
      case False
      with idx ne len have "from_mult_iters nm idx kwargs = Inl (KeyError (the idx))"
        by (simp add: from_mult_iters_pop dict_pop_missing and_then_def)
      with False idx True show ?thesis by auto
    next
      case key: True
      have *: "\<exists>d recs. from_mult_iters nm idx kwargs = Inr d \<and> values d = Some recs \<and>
           length recs = (length kwargs - 1) * L' \<and>
           (\<forall>r\<in>set recs. dom r = {''idx'', ''col'', ''val''})"
        if "\<forall>(k, v)\<in>set kwargs. length v = L'" for L'
        using d ne that idx key by (rule from_mult_iters_success)
      from * [OF len] obtain d0 where r: "from_mult_iters nm idx kwargs = Inr d0" by blast
      from r idx True have "(from_mult_iters nm idx kwargs = Inl (ValueError ''Iterables must all be same length'')
       \<longleftrightarrow> \<not> (\<exists>L. kwargs \<noteq> [] \<and> (\<forall>(k, v)\<in>set kwargs. length v = L)))"
        by simp
      moreover from r idx True have "(from_mult_iters nm idx kwargs = Inl (ValueError ''Must provide iter name index reference'')
       \<longleftrightarrow> (\<exists>L. kwargs \<noteq> [] \<and> (\<forall>(k, v)\<in>set kwargs. length v = L)) \<and> \<not> truthy idx)"
        by simp
      ultimately show ?thesis using * by blast
    qed
  qed
qed

theorem from_mult_iters_outcomes_witness:
  "distinct (map fst [(''x'', [PyInt 0, PyInt 1, PyInt 5]),
                      (''y'', [PyInt 10, PyInt 20, PyInt 30 :: (real, int) pyval])]) \<and>
   (\<exists>d recs.
      from_mult_iters None (Some ''x'')
        [(''x'', [PyInt 0, PyInt 1, PyInt 5]),
         (''y'', [PyInt 10, PyInt 20, PyInt 30 :: (real, int) pyval])] = Inr d \<and>
      values d = Some recs \<and> length recs = 3 \<and>
      (\<forall>r\<in>set recs. dom r = {''idx'', ''col'', ''val''}))"
  using from_mult_iters_outcomes
    [of "[(''x'', [PyInt 0, PyInt 1, PyInt 5]),
          (''y'', [PyInt 10, PyInt 20, PyInt 30 :: (real, int) pyval])]"
        None "Some ''x''" 3]
  by simp

text \<open>
  The claim as it is stated fails: without an index name and with sequences of
  different lengths, the error is the one about the lengths.
\<close>

theorem from_mult_iters_index_error_counterexample:
  "\<not> truthy (None :: string option) \<and>
   from_mult_iters None None
       [(''x'', [PyInt 0]), (''y'', [PyInt 0, PyInt 1 :: (real, int) pyval])]
     = Inl (ValueError ''Iterables must all be same length'') \<and>
   from_mult_iters None None
       [(''x'', [PyInt 0]), (''y'', [PyInt 0, PyInt 1 :: (real, int) pyval])]
     \<noteq> Inl (ValueError ''Must provide iter name index reference'')"
  by (simp add: from_mult_iters_def)

text \<open>
  Claim C10. When an index name is given that is not the name of any sequence, and the
  sequences have one common length, \<^verbatim>\<open>kwargs.pop(idx)\<close> raises: the result is the
  \<open>KeyError\<close> for that name, and no container is returned.
\<close>

theorem from_mult_iters_missing_key:
  "truthy idx \<Longrightarrow> the idx \<notin> fst ` set kwargs \<Longrightarrow> kwargs \<noteq> [] \<Longrightarrow>
   \<forall>(k, v)\<in>set kwargs. length v = L \<Longrightarrow>
   from_mult_iters nm idx kwargs = Inl (KeyError (the idx))"
  by (simp add: from_mult_iters_pop dict_pop_missing and_then_def)

theorem from_mult_iters_missing_key_witness:
  "from_mult_iters None (Some ''z'')
     [(''x'', [PyInt 0, PyInt 1]), (''y'', [PyInt 10, PyInt 20 :: (real, int) pyval])]
   = Inl (KeyError ''z'')"
  using from_mult_iters_missing_key
    [of "Some ''z''"
        "[(''x'', [PyInt 0, PyInt 1]), (''y'', [PyInt 10, PyInt 20 :: (real, int) pyval])]"
        2 None]
  by simp

section \<open>Auxiliary facts about loops and dicts\<close>

lemma map_err_Inr_iff:
  "map_err f xs = Inr ys \<longleftrightarrow> list_all2 (\<lambda>x y. f x = Inr y) xs ys"
proof (induction xs arbitrary: ys)
  case Nil
  then show ?case by auto
next
  case (Cons x xs)
  show ?case
  proof (cases "f x")
    case (Inl e)
    then show ?thesis by (auto simp: list_all2_Cons1)
  next
    case fx: (Inr y)
    show ?thesis
    proof (cases "map_err f xs")
      case (Inl e)
      with fx Cons.IH show ?thesis by (auto simp: list_all2_Cons1)
    next
      case (Inr zs)
      with fx Cons.IH [of zs] Cons.IH show ?thesis
        by (auto simp: list_all2_Cons1)
    qed
  qed
qed

lemma map_err_total:
  "\<forall>x\<in>set xs. \<exists>y. f x = Inr y \<Longrightarrow> \<exists>ys. map_err f xs = Inr ys"
  by (induction xs) auto

lemma map_err_Inl:
  "map_err f xs = Inl e \<Longrightarrow> \<exists>x\<in>set xs. f x = Inl e"
  by (induction xs) (auto split: sum.splits)

lemma map_err_nth:
  assumes "map_err f xs = Inr ys"
  shows "length ys = length xs" and "\<And>i. i < length xs \<Longrightarrow> f (xs ! i) = Inr (ys ! i)"
  using assms by (auto simp: map_err_Inr_iff list_all2_conv_all_nth)

lemma dict_of_dom: "dom (dict_of ps) = fst ` set ps"
  by (simp add: dict_of_def dom_map_of_conv_image_fst)

lemma dict_of_first:
  "k \<notin> fst ` set ps \<Longrightarrow> dict_of ((k, v) # ps) k = Some v"
proof -
  assume "k \<notin> fst ` set ps"
  then have "map_of (rev ps) k = None" by (simp add: map_of_eq_None_iff)
  then show ?thesis by (simp add: dict_of_def map_add_def)
qed

lemma dict_of_later:
  assumes "distinct (map fst ps)" and "(k, v) \<in> set ps"
  shows "dict_of (p # ps) k = Some v"
proof -
  from assms have "map_of (rev ps) k = Some v"
    by (intro map_of_is_SomeI) (simp_all add: rev_map [symmetric])
  then show ?thesis by (simp add: dict_of_def map_add_def)
qed

lemma dict_of_zip_nth:
  assumes "distinct cols" and "j < length cols" and "j < length row"
  shows "dict_of (p # zip cols row) (cols ! j) = Some (row ! j)"
proof (rule dict_of_later)
  have "map fst (zip cols row) = take (min (length cols) (length row)) cols"
    by (simp add: map_fst_zip_take)
  with assms(1) show "distinct (map fst (zip cols row))" by simp
  from assms(2,3) show "(cols ! j, row ! j) \<in> set (zip cols row)"
    by (auto simp: set_zip)
qed

lemma fst_set_zip:
  assumes "length xs = length ys"
  shows "fst ` set (zip xs ys) = set xs"
proof -
  have "fst ` set (zip xs ys) = set (map fst (zip xs ys))" by simp
  also from assms have "\<dots> = set xs" by (simp only: map_fst_zip)
  finally show ?thesis .
qed

lemma length_py_range: "length (py_range n) = n"
  by (simp add: py_range_def)

section \<open>Properties of the array handler\<close>

lemma from_numpy_unfold:
  assumes "np_imported rt"
    and "ix = (if truthy index then the index else py_range (shape0 np_obj))"
    and "key = (if truthy index_key then the index_key else ''idx'')"
  shows "from_numpy rt np_obj nm columns index index_key kwargs =
     (if length ix \<noteq> shape0 np_obj then
        Inl (LoadError ''length of index must be equal to number of rows of array'')
      else if length columns \<noteq> shape1 np_obj then
        Inl (LoadError ''length of columns must be equal to number of columns of array'')
      else
        and_then
          (map_err
             (\<lambda>(idx, row).
                and_then (serialize rt idx)
                  (\<lambda>s. Inr (dict_of ((key, s) # zip (map (str_of rt) columns) row))))
             (zip ix (tolist np_obj)))
          (\<lambda>vs. Inr ((Data_init nm kwargs)\<lparr>values := Some vs\<rparr>)))"
  using assms by (simp add: from_numpy_def Let_def)

lemma from_numpy_rows:
  assumes m: "map_err
             (\<lambda>(idx, row).
                and_then (serialize rt idx)
                  (\<lambda>s. Inr (dict_of ((key, s) # zip cols row))))
             (zip ix rows) = Inr vs"
    and len: "length ix = length rows"
  shows "length vs = length rows"
    and "\<And>i. i < length rows \<Longrightarrow>
           \<exists>s. serialize rt (ix ! i) = Inr s \<and> vs ! i = dict_of ((key, s) # zip cols (rows ! i))"
proof -
  from map_err_nth(1) [OF m] len show "length vs = length rows" by simp
next
  fix i
  assume i: "i < length rows"
  with len have "i < length (zip ix rows)" by simp
  from map_err_nth(2) [OF m this] i len
  have "and_then (serialize rt (ix ! i))
          (\<lambda>s. Inr (dict_of ((key, s) # zip cols (rows ! i)))) = Inr (vs ! i)"
    by simp
  then show "\<exists>s. serialize rt (ix ! i) = Inr s \<and> vs ! i = dict_of ((key, s) # zip cols (rows ! i))"
    by (cases "serialize rt (ix ! i)") (auto simp: and_then_def)
qed

lemma from_numpy_rows_total:
  assumes "\<forall>i\<in>set ix. \<exists>s. serialize rt i = Inr s"
  shows "\<exists>vs. map_err
             (\<lambda>(idx, row).
                and_then (serialize rt idx)
                  (\<lambda>s. Inr (dict_of ((key, s) # zip cols row))))
             (zip ix rows) = Inr vs"
proof (rule map_err_total, rule ballI)
  fix x
  assume "x \<in> set (zip ix rows)"
  then have "fst x \<in> set ix" by (metis prod.collapse set_zip_leftD)
  with assms obtain s where "serialize rt (fst x) = Inr s" by blast
  then show "\<exists>y. (case x of (idx, row) \<Rightarrow>
                 and_then (serialize rt idx)
                   (\<lambda>s. Inr (dict_of ((key, s) # zip cols row)))) = Inr y"
    by (cases x) (simp add: and_then_def)
qed

text \<open>
  Claim C2, as amended. Let numpy be imported, the array be well formed, the index be
  absent or non-empty (or the array have no rows), and every index label in effect be
  one that \<open>serialize\<close> accepts. Then \<open>from_numpy\<close> fails with the length error about
  the index exactly when a given index has a length other than the number of rows; it
  fails with the length error about the columns exactly when the index is fine and the
  number of column names is not the number of columns of the array; and otherwise it
  returns a container with exactly one row mapping per row of the array, each with
  the index key and the column names as its keys.
\<close>

theorem from_numpy_outcomes:
  assumes np: "np_imported rt"
    and wf: "ndarray_wf np_obj"
    and given: "index = Some [] \<longrightarrow> shape0 np_obj = 0"
    and ix: "ix = (if truthy index then the index else py_range (shape0 np_obj))"
    and ser: "\<forall>i\<in>set ix. \<exists>s. serialize rt i = Inr s"
    and key: "key = (if truthy index_key then the index_key else ''idx'')"
  shows
   "(from_numpy rt np_obj nm columns index index_key kwargs =
       Inl (LoadError ''length of index must be equal to number of rows of array'')
     \<longleftrightarrow> (\<exists>labels. index = Some labels \<and> length labels \<noteq> shape0 np_obj)) \<and>
    (from_numpy rt np_obj nm columns index index_key kwargs =
       Inl (LoadError ''length of columns must be equal to number of columns of array'')
     \<longleftrightarrow> \<not> (\<exists>labels. index = Some labels \<and> length labels \<noteq> shape0 np_obj) \<and>
         length columns \<noteq> shape1 np_obj) \<and>
    (\<not> (\<exists>labels. index = Some labels \<and> length labels \<noteq> shape0 np_obj) \<and>
     length columns = shape1 np_obj \<longrightarrow>
       (\<exists>d vs. from_numpy rt np_obj nm columns index index_key kwargs = Inr d \<and>
          values d = Some vs \<and> length vs = shape0 np_obj \<and>
          (\<forall>r\<in>set vs. dom r = insert key (str_of rt ` set columns))))"
proof -
  let ?res = "from_numpy rt np_obj nm columns index index_key kwargs"
  let ?bad = "\<exists>labels. index = Some labels \<and> length labels \<noteq> shape0 np_obj"
  have bad: "?bad \<longleftrightarrow> length ix \<noteq> shape0 np_obj"
  proof (cases index)
    case None
    with ix show ?thesis by (simp add: length_py_range)
  next
    case (Some labels)
    show ?thesis
    proof (cases "labels = []")
      case True
      with Some given ix show ?thesis by (simp add: length_py_range)
    next
      case False
      with Some ix show ?thesis by simp
    qed
  qed
  note unfold = from_numpy_unfold [OF np ix key, of nm columns kwargs]
  show ?thesis
  proof (cases "length ix \<noteq> shape0 np_obj")
    case True
    with unfold have "?res = Inl (LoadError ''length of index must be equal to number of rows of array'')"
      by simp
    with True bad show ?thesis by simp
  next
    case rows: False
    show ?thesis
    proof (cases "length columns \<noteq> shape1 np_obj")
      case True
      with rows unfold have
        "?res = Inl (LoadError ''length of columns must be equal to number of columns of array'')"
        by simp
      with True rows bad show ?thesis by simp
    next
      case cols: False
      from rows have len: "length ix = length (tolist np_obj)" by (simp add: shape0_def)
      from from_numpy_rows_total [OF ser] obtain vs where
        m: "map_err
             (\<lambda>(idx, row).
                and_then (serialize rt idx)
                  (\<lambda>s. Inr (dict_of ((key, s) # zip (map (str_of rt) columns) row))))
             (zip ix (tolist np_obj)) = Inr vs"
        by blast
      with rows cols unfold have r: "?res = Inr ((Data_init nm kwargs)\<lparr>values := Some vs\<rparr>)"
        by (simp add: and_then_def)
      have n: "length vs = shape0 np_obj"
        using from_numpy_rows(1) [OF m len] by (simp add: shape0_def)
      have k: "\<forall>r\<in>set vs. dom r = insert key (str_of rt ` set columns)"
      proof
        fix r
        assume "r \<in> set vs"
        then obtain i where i: "i < length vs" and ri: "r = vs ! i"
          by (auto simp: in_set_conv_nth)
        from i n have i': "i < length (tolist np_obj)" by (simp add: shape0_def)
        from from_numpy_rows(2) [OF m len i'] ri obtain s where
          "r = dict_of ((key, s) # zip (map (str_of rt) columns) (tolist np_obj ! i))"
          by blast
        moreover from wf i' cols have "length (tolist np_obj ! i) = length columns"
          by (simp add: ndarray_wf_def list_all_length)
        ultimately show "dom r = insert key (str_of rt ` set columns)"
          by (simp add: dict_of_dom fst_set_zip)
      qed
      have "values ((Data_init nm kwargs)\<lparr>values := Some vs\<rparr>) = Some vs" by simp
      with r n k have "\<exists>d vs. ?res = Inr d \<and> values d = Some vs \<and> length vs = shape0 np_obj \<and>
          (\<forall>r\<in>set vs. dom r = insert key (str_of rt ` set columns))"
        by blast
      with r rows cols bad show ?thesis by simp
    qed
  qed
qed

theorem from_numpy_outcomes_witness:
  "(\<exists>d vs.
      from_numpy example_env (NDArray 2 [[PyFloat 1, PyFloat 2], [PyFloat 3, PyFloat 4]])
        (Some ''table'') [PyStr ''a'', PyStr ''b''] (Some [PyInt 0, PyInt 1]) None no_kwargs
        = Inr d \<and>
      values d = Some vs \<and> length vs = 2 \<and>
      (\<forall>r\<in>set vs. dom r = {''idx'', ''a'', ''b''})) \<and>
   from_numpy example_env (NDArray 2 [[PyFloat 1, PyFloat 2], [PyFloat 3, PyFloat 4]])
     (Some ''table'') [PyStr ''a'', PyStr ''b'', PyStr ''c''] (Some [PyInt 0, PyInt 1]) None
     no_kwargs
     = Inl (LoadError ''length of columns must be equal to number of columns of array'')"
proof -
  let ?a = "NDArray 2 [[PyFloat 1, PyFloat 2], [PyFloat 3, PyFloat 4 :: (real, int) pyval]]"
  let ?ix = "[PyInt 0, PyInt 1 :: (real, int) pyval]"
  have np: "np_imported example_env" by (simp add: example_env_def)
  have wf: "ndarray_wf ?a" by (simp add: ndarray_wf_def)
  have given: "Some ?ix = Some [] \<longrightarrow> shape0 ?a = 0" by simp
  have ix: "?ix = (if truthy (Some ?ix) then the (Some ?ix) else py_range (shape0 ?a))"
    by simp
  have ser: "\<forall>i\<in>set ?ix. \<exists>s. serialize example_env i = Inr s"
    by (simp add: serialize_PyInt example_env_def and_then_def)
  have key: "''idx'' = (if truthy None then the None else ''idx'')" by simp
  have names2: "str_of example_env ` set [PyStr ''a'', PyStr ''b''] = {''a'', ''b''}"
    by (simp add: example_env_def)
  have sh: "shape0 ?a = 2" "shape1 ?a = 2" by (simp_all add: shape0_def)
  from from_numpy_outcomes [OF np wf given ix ser key,
      of "Some ''table''" "[PyStr ''a'', PyStr ''b'']" no_kwargs]
  have ok: "\<exists>d vs.
      from_numpy example_env ?a (Some ''table'') [PyStr ''a'', PyStr ''b''] (Some ?ix) None
        no_kwargs = Inr d \<and>
      values d = Some vs \<and> length vs = 2 \<and>
      (\<forall>r\<in>set vs. dom r = {''idx'', ''a'', ''b''})"
    unfolding names2 sh by simp
  from from_numpy_outcomes [OF np wf given ix ser key,
      of "Some ''table''" "[PyStr ''a'', PyStr ''b'', PyStr ''c'']" no_kwargs]
  have "from_numpy example_env ?a (Some ''table'') [PyStr ''a'', PyStr ''b'', PyStr ''c'']
          (Some ?ix) None no_kwargs
        = Inl (LoadError ''length of columns must be equal to number of columns of array'')"
    unfolding sh by simp
  with ok show ?thesis by blast
qed

text \<open>
  The claim as it is stated fails: with matching lengths the call still raises when an
  index label cannot be serialized, here the label \<^verbatim>\<open>None\<close>.
\<close>

theorem from_numpy_unserializable_counterexample:
  "np_imported example_env \<and>
   length [PyObj ''NoneType'' False None None None None :: (real, int) pyval]
     = shape0 (NDArray 1 [[PyFloat 1 :: (real, int) pyval]]) \<and>
   length [PyStr ''a'' :: (real, int) pyval] = shape1 (NDArray 1 [[PyFloat 1 :: (real, int) pyval]]) \<and>
   from_numpy example_env (NDArray 1 [[PyFloat 1]]) (Some ''table'') [PyStr ''a'']
     (Some [PyObj ''NoneType'' False None None None None]) None no_kwargs
     = Inl (LoadError ''cannot serialize index of type NoneType'')"
  by (simp add: from_numpy_def example_env_def shape0_def serialize_def and_then_def)

text \<open>
  Claim C6. In every row mapping that \<open>from_numpy\<close> returns, the entry under the
  index key is built from the serialized index label and the entries under the column
  names are built from the cells as \<^verbatim>\<open>tolist()\<close> gives them: row \<open>i\<close> is the dict of
  the pair (index key, \<open>serialize\<close> of label \<open>i\<close>) followed by the column names zipped
  with the cells of row \<open>i\<close>. So the index key maps to the serialized label when it
  is not also a column name, and with distinct column names column \<open>j\<close> maps to cell
  \<open>j\<close> itself.
\<close>

theorem from_numpy_cells_raw:
  assumes res: "from_numpy rt np_obj nm columns index index_key kwargs = Inr d"
    and ix: "ix = (if truthy index then the index else py_range (shape0 np_obj))"
    and cols: "cols = map (str_of rt) columns"
    and key: "key = (if truthy index_key then the index_key else ''idx'')"
  shows "\<exists>vs. values d = Some vs \<and> length vs = shape0 np_obj \<and>
     (\<forall>i<shape0 np_obj.
        \<exists>s. serialize rt (ix ! i) = Inr s \<and>
            vs ! i = dict_of ((key, s) # zip cols (tolist np_obj ! i)) \<and>
            (key \<notin> set cols \<longrightarrow> (vs ! i) key = Some s) \<and>
            (distinct cols \<longrightarrow>
               (\<forall>j. j < length cols \<and> j < length (tolist np_obj ! i) \<longrightarrow>
                    (vs ! i) (cols ! j) = Some (tolist np_obj ! i ! j))))"
proof -
  from res have np: "np_imported rt"
    by (auto simp: from_numpy_def split: if_splits)
  note unfold = from_numpy_unfold [OF np ix key, of nm columns kwargs]
  from res unfold have len: "length ix = length (tolist np_obj)"
    by (auto simp: shape0_def split: if_splits)
  from res unfold len obtain vs where
    m: "map_err
          (\<lambda>(idx, row).
             and_then (serialize rt idx) (\<lambda>s. Inr (dict_of ((key, s) # zip cols row))))
          (zip ix (tolist np_obj)) = Inr vs"
    and d: "d = (Data_init nm kwargs)\<lparr>values := Some vs\<rparr>"
    by (auto simp: shape0_def cols and_then_def split: if_splits sum.splits)
  have "\<exists>s. serialize rt (ix ! i) = Inr s \<and>
            vs ! i = dict_of ((key, s) # zip cols (tolist np_obj ! i)) \<and>
            (key \<notin> set cols \<longrightarrow> (vs ! i) key = Some s) \<and>
            (distinct cols \<longrightarrow>
               (\<forall>j. j < length cols \<and> j < length (tolist np_obj ! i) \<longrightarrow>
                    (vs ! i) (cols ! j) = Some (tolist np_obj ! i ! j)))"
    if "i < shape0 np_obj" for i
  proof -
    from that have "i < length (tolist np_obj)" by (simp add: shape0_def)
    from from_numpy_rows(2) [OF m len this] obtain s where
      s: "serialize rt (ix ! i) = Inr s"
      and v: "vs ! i = dict_of ((key, s) # zip cols (tolist np_obj ! i))"
      by blast
    have "(vs ! i) key = Some s" if "key \<notin> set cols"
    proof -
      from that have "key \<notin> fst ` set (zip cols (tolist np_obj ! i))"
        by (auto dest: set_zip_leftD)
      then show ?thesis unfolding v by (rule dict_of_first)
    qed
    moreover have "(vs ! i) (cols ! j) = Some (tolist np_obj ! i ! j)"
      if "distinct cols" and "j < length cols" and "j < length (tolist np_obj ! i)" for j
      unfolding v using that by (rule dict_of_zip_nth)
    ultimately show ?thesis using s v by blast
  qed
  moreover have "length vs = shape0 np_obj"
    using from_numpy_rows(1) [OF m len] by (simp add: shape0_def)
  moreover have "values d = Some vs" by (simp add: d)
  ultimately show ?thesis by blast
qed

theorem from_numpy_cells_raw_witness:
  "\<exists>d vs.
     from_numpy example_env (NDArray 2 [[PyInt 3, PyInt 4]]) (Some ''table'')
       [PyStr ''a'', PyStr ''b''] (Some [PyInt 7]) None no_kwargs = Inr d \<and>
     values d = Some vs \<and> length vs = 1 \<and>
     (vs ! 0) ''idx'' = Some (PyFloat 7) \<and>
     (vs ! 0) ''a'' = Some (PyInt 3) \<and> (vs ! 0) ''b'' = Some (PyInt 4) \<and>
     serialize example_env (PyInt 3) = Inr (PyFloat 3)"
proof -
  let ?a = "NDArray 2 [[PyInt 3, PyInt 4 :: (real, int) pyval]]"
  let ?cols = "[PyStr ''a'', PyStr ''b'' :: (real, int) pyval]"
  have s7: "serialize example_env (PyInt 7) = Inr (PyFloat 7)"
    and s3: "serialize example_env (PyInt 3) = Inr (PyFloat 3)"
    by (simp_all add: serialize_PyInt example_env_def and_then_def)
  have "\<exists>d. from_numpy example_env ?a (Some ''table'') ?cols (Some [PyInt 7]) None no_kwargs
          = Inr d"
    by (simp add: from_numpy_def shape0_def s7 and_then_def) (simp add: example_env_def)
  then obtain d where
    r: "from_numpy example_env ?a (Some ''table'') ?cols (Some [PyInt 7]) None no_kwargs = Inr d"
    by blast
  have ix: "[PyInt 7] = (if truthy (Some [PyInt 7 :: (real, int) pyval])
                         then the (Some [PyInt 7]) else py_range (shape0 ?a))"
    by simp
  have cols: "[''a'', ''b''] = map (str_of example_env) ?cols"
    by (simp add: example_env_def)
  have key: "''idx'' = (if truthy None then the None else ''idx'')" by simp
  from from_numpy_cells_raw [OF r ix cols key] obtain vs where
    v: "values d = Some vs" and n: "length vs = shape0 ?a"
    and rows: "\<forall>i<shape0 ?a.
        \<exists>s. serialize example_env ([PyInt 7] ! i) = Inr s \<and>
            vs ! i = dict_of ((''idx'', s) # zip [''a'', ''b''] (tolist ?a ! i)) \<and>
            (''idx'' \<notin> set [''a'', ''b''] \<longrightarrow> (vs ! i) ''idx'' = Some s) \<and>
            (distinct [''a'', ''b''] \<longrightarrow>
               (\<forall>j. j < length [''a'', ''b''] \<and> j < length (tolist ?a ! i) \<longrightarrow>
                    (vs ! i) ([''a'', ''b''] ! j) = Some (tolist ?a ! i ! j)))"
    by blast
  from rows have
    i: "(vs ! 0) ''idx'' = Some (PyFloat 7)"
    and c: "\<forall>j. j < 2 \<longrightarrow> (vs ! 0) ([''a'', ''b''] ! j) = Some ([PyInt 3, PyInt 4] ! j)"
    by (auto simp: shape0_def s7)
  from c [rule_format, of 0] c [rule_format, of 1]
  have "(vs ! 0) ''a'' = Some (PyInt 3)" and "(vs ! 0) ''b'' = Some (PyInt 4)" by simp_all
  with r v n i s3 show ?thesis by (auto simp: shape0_def)
qed

section \<open>Properties of the pandas handler\<close>

lemma map_err_map:
  "\<forall>x\<in>set xs. f x = Inr (g x) \<Longrightarrow> map_err f xs = Inr (map g xs)"
  by (induction xs) auto







lemma from_pandas_unfiltered:
  assumes pd: "pd_imported rt"
    and data: "data < length h"
    and idx: "hasattr_index (h ! data)"
    and nofilter: "\<not> truthy columns"
    and reindexed:
      "(if key_on \<noteq> ''idx'' then
          and_then (getitem_key (h ! data) key_on) (set_index (h ! data))
        else Inr (h ! data)) = Inr p"
  shows "from_pandas rt h data columns key_on nm series_key grouped kwargs =
     (h @ [p],
      case p of
        Series nm' items \<Rightarrow>
          and_then
            (series_loop rt
               (if truthy (attr_name (h ! data)) then the (attr_name (h ! data))
                else series_key) items)
            (\<lambda>vs. Inr ((if truthy nm then Data_init nm kwargs
                         else Data_init (Some ''table'') kwargs)\<lparr>values := Some vs\<rparr>))
      | DataFrame cols rows \<Rightarrow>
          and_then (frame_loop rt grouped cols rows)
            (\<lambda>vs. Inr ((if truthy nm then Data_init nm kwargs
                         else Data_init (Some ''table'') kwargs)\<lparr>values := Some vs\<rparr>))
      | Other ty b \<Rightarrow> Inl (ValueError (''cannot load from data type '' @ ty)))"
proof (cases "key_on = ''idx''")
  case True
  with reindexed have "p = h ! data" by simp
  with True pd data idx nofilter show ?thesis
    by (simp add: from_pandas_def Let_def nth_append split: pandas.split)
next
  case False
  with reindexed obtain new where
    g: "getitem_key (h ! data) key_on = Inr new" and s: "set_index (h ! data) new = Inr p"
    by (cases "getitem_key (h ! data) key_on") (auto simp: and_then_def)
  with False pd data idx nofilter show ?thesis
    by (simp add: from_pandas_def Let_def nth_append and_then_def split: pandas.split)
qed

text \<open>
  What the loop over a series does: one record per entry, and the \<^verbatim>\<open>col\<close> of each is
  the name of the series when it has one, and \<open>series_key\<close> only otherwise.
\<close>

lemma series_loop_ok:
  assumes ser: "\<forall>(i, v)\<in>set items.
                  (\<exists>s. serialize rt i = Inr s) \<and> (\<exists>s. serialize rt v = Inr s)"
  shows "\<exists>recs. series_loop rt data_key items = Inr recs \<and>
           length recs = length items \<and>
           (\<forall>n<length items.
              \<exists>si sv.
                serialize rt (fst (items ! n)) = Inr si \<and>
                serialize rt (snd (items ! n)) = Inr sv \<and>
                recs ! n = [''idx'' \<mapsto> si, ''col'' \<mapsto> PyStr data_key, ''val'' \<mapsto> sv])"
proof -
  define S where "S v = projr (serialize rt v)" for v
  have S: "serialize rt v = Inr (S v)" if "\<exists>s. serialize rt v = Inr s" for v
    using that unfolding S_def by (metis sum.sel(2))
  define rec where
    "rec = (\<lambda>(i, v). [''idx'' \<mapsto> S i, ''col'' \<mapsto> PyStr data_key, ''val'' \<mapsto> S v])"
  have both: "serialize rt i = Inr (S i) \<and> serialize rt v = Inr (S v)"
    if "(i, v) \<in> set items" for i v
    using ser that by (auto intro!: S)
  have "series_loop rt data_key items = Inr (map rec items)"
    unfolding series_loop_def
    by (rule map_err_map) (auto simp: rec_def and_then_def both)
  moreover have "\<exists>si sv.
      serialize rt (fst (items ! n)) = Inr si \<and> serialize rt (snd (items ! n)) = Inr sv \<and>
      map rec items ! n = [''idx'' \<mapsto> si, ''col'' \<mapsto> PyStr data_key, ''val'' \<mapsto> sv]"
    if "n < length items" for n
  proof -
    obtain i v where e: "items ! n = (i, v)" by (metis prod.collapse)
    with that have "(i, v) \<in> set items" by (metis nth_mem)
    from both [OF this] that e show ?thesis by (simp add: rec_def)
  qed
  ultimately show ?thesis by simp
qed

lemma from_pandas_series_records:
  assumes pd: "pd_imported rt"
    and data: "data < length h"
    and series: "h ! data = Series sn items"
    and nofilter: "\<not> truthy columns"
    and ser: "\<forall>(i, v)\<in>set items.
                (\<exists>s. serialize rt i = Inr s) \<and> (\<exists>s. serialize rt v = Inr s)"
  shows "\<exists>d recs.
      snd (from_pandas rt h data columns ''idx'' nm series_key grouped kwargs) = Inr d \<and>
      values d = Some recs \<and> length recs = length items \<and>
      (\<forall>n<length items.
         \<exists>si sv.
           serialize rt (fst (items ! n)) = Inr si \<and>
           serialize rt (snd (items ! n)) = Inr sv \<and>
           recs ! n = [''idx'' \<mapsto> si,
                       ''col'' \<mapsto> PyStr (if truthy sn then the sn else series_key),
                       ''val'' \<mapsto> sv])"
proof -
  from series have idx: "hasattr_index (h ! data)" by simp
  have re: "(if ''idx'' \<noteq> ''idx'' then
        and_then (getitem_key (h ! data) ''idx'') (set_index (h ! data))
      else Inr (h ! data)) = Inr (Series sn items)"
    by (simp add: series)
  note unfold = from_pandas_unfiltered [OF pd data idx nofilter re,
      of nm series_key grouped kwargs]
  from series_loop_ok [OF ser, of "if truthy sn then the sn else series_key"]
  obtain recs where
    loop: "series_loop rt (if truthy sn then the sn else series_key) items = Inr recs"
    and n: "length recs = length items"
    and each: "\<forall>n<length items.
         \<exists>si sv.
           serialize rt (fst (items ! n)) = Inr si \<and>
           serialize rt (snd (items ! n)) = Inr sv \<and>
           recs ! n = [''idx'' \<mapsto> si,
                       ''col'' \<mapsto> PyStr (if truthy sn then the sn else series_key),
                       ''val'' \<mapsto> sv]"
    by blast
  define d where "d = (if truthy nm then Data_init nm kwargs
                       else Data_init (Some ''table'') kwargs)\<lparr>values := Some recs\<rparr>"
  from unfold loop have
    "snd (from_pandas rt h data columns ''idx'' nm series_key grouped kwargs) = Inr d"
    by (cases "truthy sn") (simp_all add: and_then_def d_def series)
  moreover have "values d = Some recs" by (simp add: d_def)
  ultimately show ?thesis using n each by blast
qed

text \<open>
  Claim C4 says that each record has \<^verbatim>\<open>col\<close> equal to \<open>series_key\<close>. On a series that
  has the name \<^verbatim>\<open>y\<close>, loaded with \<open>series_key\<close> \<^verbatim>\<open>x\<close>, the two records have
  \<^verbatim>\<open>col\<close> equal to \<^verbatim>\<open>y\<close>: line 194 takes \<^verbatim>\<open>data.name or series_key\<close>.
\<close>

theorem from_pandas_named_series:
  "snd (from_pandas example_env
          [Series (Some ''y'') [(PyStr ''r0'', PyFloat 3.5), (PyStr ''r1'', PyFloat 1.5)]]
          0 None ''idx'' None ''x'' False no_kwargs)
   = Inr ((Data_init (Some ''table'') no_kwargs)
            \<lparr>values := Some
               [[''idx'' \<mapsto> PyStr ''r0'', ''col'' \<mapsto> PyStr ''y'', ''val'' \<mapsto> PyFloat 3.5],
                [''idx'' \<mapsto> PyStr ''r1'', ''col'' \<mapsto> PyStr ''y'', ''val'' \<mapsto> PyFloat 1.5]]\<rparr>)"
  by (simp add: from_pandas_def series_loop_def serialize_PyStr serialize_PyFloat and_then_def)
    (simp add: example_env_def)




text \<open>
  Claim C8. \<open>from_pandas\<close> leaves every object of the caller's store as it was,
  whatever the column subset and the key: the store at the end is the store at the
  start followed by the new objects (the copy, and the selection when there is one),
  and the index is assigned on one of the new objects only. In particular the object
  at the address \<open>data\<close> is unchanged.
\<close>

theorem from_pandas_keeps_store:
  "take (length h)
     (fst (from_pandas rt h data columns key_on nm series_key grouped kwargs)) = h \<and>
   (data < length h \<longrightarrow>
      fst (from_pandas rt h data columns key_on nm series_key grouped kwargs) ! data = h ! data)"
proof -
  let ?h' = "fst (from_pandas rt h data columns key_on nm series_key grouped kwargs)"
  have t: "take (length h) ?h' = h"
  proof (cases "pd_imported rt \<and> hasattr_index (h ! data)")
    case False
    then show ?thesis by (auto simp: from_pandas_def)
  next
    case True
    define h1 where "h1 = h @ [h ! data]"
    have t1: "take (length h) h1 = h" by (simp add: h1_def)
    define sel where "sel = (if truthy columns then
                  (case getitem_list rt (h1 ! data) (the columns) of
                     Inl e \<Rightarrow> Inl e
                   | Inr sel \<Rightarrow> Inr (h1 @ [sel], length h1))
                else Inr (h1, length h))"
    show ?thesis
    proof (cases sel)
      case (Inl e)
      with True t1 show ?thesis
        by (simp add: from_pandas_def Let_def h1_def [symmetric] sel_def [symmetric])
    next
      case (Inr hp)
      obtain h2 pd_obj where hp: "hp = (h2, pd_obj)" by (cases hp)
      from Inr hp have t2: "take (length h) h2 = h" and fresh: "length h \<le> pd_obj"
        by (auto simp: sel_def h1_def split: if_splits sum.splits)
      define re where "re = (if key_on \<noteq> ''idx'' then
                       and_then (getitem_key (h2 ! data) key_on) (\<lambda>new.
                       and_then (set_index (h2 ! pd_obj) new) (\<lambda>p.
                         Inr (h2[pd_obj := p])))
                     else Inr h2)"
      show ?thesis
      proof (cases re)
        case (Inl e)
        with True Inr hp t2 show ?thesis
          by (simp add: from_pandas_def Let_def h1_def [symmetric] sel_def [symmetric]
                re_def [symmetric])
      next
        case h3: (Inr h3)
        then have "take (length h) h3 = h"
          using t2 fresh
          by (auto simp: re_def and_then_def split: if_splits sum.splits)
        with True Inr hp h3 show ?thesis
          by (simp add: from_pandas_def Let_def h1_def [symmetric] sel_def [symmetric]
                re_def [symmetric])
      qed
    qed
  qed
  moreover have "?h' ! data = h ! data" if "data < length h"
  proof -
    from that have "take (length h) ?h' ! data = ?h' ! data" by simp
    with t show ?thesis by simp
  qed
  ultimately show ?thesis by blast
qed

theorem from_pandas_keeps_store_witness:
  "fst (from_pandas example_env
          [DataFrame [PyStr ''a'', PyStr ''b'']
             [(PyStr ''r0'', [PyFloat 1, PyFloat 2]), (PyStr ''r1'', [PyFloat 3, PyFloat 4])]]
          0 (Some [PyStr ''b'']) ''a'' None ''data'' False no_kwargs) ! 0
     = DataFrame [PyStr ''a'', PyStr ''b'']
         [(PyStr ''r0'', [PyFloat 1, PyFloat 2]), (PyStr ''r1'', [PyFloat 3, PyFloat 4])] \<and>
   fst (from_pandas example_env
          [DataFrame [PyStr ''a'', PyStr ''b'']
             [(PyStr ''r0'', [PyFloat 1, PyFloat 2]), (PyStr ''r1'', [PyFloat 3, PyFloat 4])]]
          0 (Some [PyStr ''b'']) ''a'' None ''data'' False no_kwargs) ! 2
     = DataFrame [PyStr ''b''] [(PyFloat 1, [PyFloat 2]), (PyFloat 3, [PyFloat 4])]"
proof -
  let ?h = "[DataFrame [PyStr ''a'', PyStr ''b'']
             [(PyStr ''r0'', [PyFloat 1, PyFloat 2]),
              (PyStr ''r1'', [PyFloat 3, PyFloat 4 :: (real, int) pyval])]]"
  have new: "fst (from_pandas example_env ?h 0 (Some [PyStr ''b'']) ''a'' None ''data'' False
                    no_kwargs) ! 2
     = DataFrame [PyStr ''b''] [(PyFloat 1, [PyFloat 2]), (PyFloat 3, [PyFloat 4])]"
    by (simp add: from_pandas_def and_then_def Let_def) (simp add: example_env_def)
  from from_pandas_keeps_store
         [of ?h example_env 0 "Some [PyStr ''b'']" "''a''" None "''data''" False no_kwargs]
  have "fst (from_pandas example_env ?h 0 (Some [PyStr ''b'']) ''a'' None ''data'' False
               no_kwargs) ! 0 = ?h ! 0"
    by simp
  with new show ?thesis by simp
qed

end
